theory Spec2Isabelle
  imports Main "HOL-Library.Sublist"
begin

section \<open>Values shared by the model, the controllers and the router\<close>

text \<open>
  A request body (\<open>req.body\<close>) is a JavaScript object. Its keys are kept in insertion
  order, because Mongoose assigns them to a document one at a time; a well-formed
  object has each key once (\<open>distinct (map fst b)\<close>). Values are strings: nested
  objects, numbers and arrays in a body are outside this development, and so are the keys
  \<open>_id\<close> and \<open>__v\<close> when a client supplies them.
\<close>

type_synonym body = "(string \<times> string) list"

definition body_get :: "body \<Rightarrow> string \<Rightarrow> string option" where
  \<comment> \<open>\<open>req.body.k\<close>: \<open>None\<close> is JavaScript's \<open>undefined\<close>.\<close>
  "body_get b k = map_of b k"

definition truthy :: "string option \<Rightarrow> bool" where
  \<comment> \<open>JavaScript truthiness of a value that is a string or \<open>undefined\<close>.\<close>
  "truthy v = (case v of None \<Rightarrow> False | Some s \<Rightarrow> s \<noteq> [])"

text \<open>Errors handed to a callback by Mongoose or the database driver.\<close>

datatype err =
    ValidationError "(string \<times> string) list"
  | DuplicateKey
  | StoreError string

text \<open>JSON values given to \<open>res.json\<close>; \<open>JErr\<close> is an error object of a library.\<close>

datatype json =
    JNull
  | JStr string
  | JNum nat
  | JObj "(string \<times> json) list"
  | JArr "json list"
  | JErr err

text \<open>
  The calls a handler has made on the response object, in program order.
  \<open>Send_status n\<close> is \<open>res.send(n)\<close> with a number, \<open>Send_empty\<close> is \<open>res.send()\<close>; both
  and \<open>res.json\<close> send the response, \<open>res.status\<close> only sets the code. A handler ends
  by returning (\<open>Done\<close>) or by an exception (\<open>Threw\<close>, with the calls made before it):
  of bcrypt, or of Express when \<open>res.json\<close> is called on a response that has been sent.
\<close>

datatype res_call = Status nat | Json json | Send_status nat | Send_empty

datatype outcome = Done "res_call list" | Threw "res_call list" string

fun is_send :: "res_call \<Rightarrow> bool" where
  "is_send (Status n) = False"
| "is_send (Json j) = True"
| "is_send (Send_status n) = True"
| "is_send Send_empty = True"

fun calls_of :: "outcome \<Rightarrow> res_call list" where
  "calls_of (Done cs) = cs"
| "calls_of (Threw cs x) = cs"

definition headers_sent :: string where
  \<comment> \<open>the error Node raises when a header is set on a response that has been sent\<close>
  "headers_sent = ''headers sent''"

definition res_json :: "res_call list \<Rightarrow> json \<Rightarrow> outcome" where
  \<comment> \<open>\<open>res.json(j)\<close> on a response with the calls \<open>cs\<close> behind it: Express sets the
      \<open>Content-Type\<close> header and sends, and setting a header on a sent response raises\<close>
  "res_json cs j =
     (if \<exists>c \<in> set cs. is_send c then Threw cs headers_sent else Done (cs @ [Json j]))"

section \<open>The libraries, as parameters\<close>

text \<open>
  bcrypt and jsonwebtoken are not part of the repository; the code is verified for any
  implementation of them. \<open>compareSync\<close> may raise (\<open>Inl\<close>), as it does for a missing
  argument. \<open>sign payload secret expiresIn clock\<close> and \<open>verify token secret clock\<close> read
  the clock in seconds.
\<close>

record bcrypt_lib =
  hashSync :: "string \<Rightarrow> string \<Rightarrow> string"
  compareSync :: "string option \<Rightarrow> string \<Rightarrow> string + bool"

record jwt_payload =
  payload_id :: string
  payload_username :: string

record decoded = jwt_payload +
  iat :: nat
  exp :: nat

datatype jwt_error = TokenExpiredError | JsonWebTokenError

record jwt_lib =
  sign :: "jwt_payload \<Rightarrow> string \<Rightarrow> nat \<Rightarrow> nat \<Rightarrow> string"
  verify :: "string \<Rightarrow> string \<Rightarrow> nat \<Rightarrow> jwt_error option \<times> decoded option"

text \<open>
  What one request reads from outside the program: the clock, the salt drawn by
  \<open>genSaltSync\<close>, the identifier generated for a new document, and whether the store
  layer reports an error for this operation (a lost connection, an identifier it cannot
  cast).
\<close>

record env =
  clock :: nat
  salt :: string
  new_id :: string
  store_fault :: "err option"

section \<open>models/user.js\<close>

text \<open>A persisted document of the \<open>User\<close> collection.\<close>

record user =
  uid :: string
  username :: string
  email :: string
  passwordHash :: string
  version :: nat

type_synonym store = "user list"

text \<open>
  A document in memory, before it is saved: schema paths may still be unset, and the
  virtuals \<open>password\<close> and \<open>passwordConfirmation\<close> keep their values in \<open>_password\<close>
  and \<open>_passwordConfirmation\<close>.
\<close>

record doc =
  doc_id :: string
  doc_username :: "string option"
  doc_email :: "string option"
  doc_passwordHash :: "string option"
  doc_password :: "string option"
  doc_passwordConfirmation :: "string option"
  isNew :: bool

definition delete_key :: "string \<Rightarrow> (string \<times> json) list \<Rightarrow> (string \<times> json) list" where
  \<comment> \<open>\<open>delete json.k\<close>\<close>
  "delete_key k kvs = filter (\<lambda>kv. fst kv \<noteq> k) kvs"

definition transform :: "(string \<times> json) list \<Rightarrow> (string \<times> json) list" where
  \<comment> \<open>the \<open>toJSON\<close> transform of the schema\<close>
  "transform j = delete_key ''__v'' (delete_key ''passwordHash'' j)"

definition user_object :: "user \<Rightarrow> (string \<times> json) list" where
  \<comment> \<open>the plain object Mongoose builds from a document before the transform runs\<close>
  "user_object u =
     [(''_id'', JStr (uid u)), (''username'', JStr (username u)), (''email'', JStr (email u)),
      (''passwordHash'', JStr (passwordHash u)), (''__v'', JNum (version u))]"

definition toJSON :: "user \<Rightarrow> json" where
  "toJSON u = JObj (transform (user_object u))"

definition set_password :: "bcrypt_lib \<Rightarrow> string \<Rightarrow> doc \<Rightarrow> string \<Rightarrow> doc" where
  \<comment> \<open>the setter of the virtual \<open>password\<close>\<close>
  "set_password B slt d p =
     d\<lparr>doc_password := Some p, doc_passwordHash := Some (hashSync B p slt)\<rparr>"

definition set_passwordConfirmation :: "doc \<Rightarrow> string \<Rightarrow> doc" where
  "set_passwordConfirmation d c = d\<lparr>doc_passwordConfirmation := Some c\<rparr>"

definition passwordHash_validator :: "doc \<Rightarrow> (string \<times> string) list" where
  \<comment> \<open>the validator on the path \<open>passwordHash\<close>: the list of \<open>invalidate\<close> calls it makes\<close>
  "passwordHash_validator d =
     (if isNew d then
        (if \<not> truthy (doc_password d) then [(''password'', ''A password is required'')]
         else if doc_password d \<noteq> doc_passwordConfirmation d
           then [(''passwordConfirmation'', ''Passwords do not match'')]
         else [])
      else [])"

definition validatePassword :: "bcrypt_lib \<Rightarrow> user \<Rightarrow> string option \<Rightarrow> string + bool" where
  "validatePassword B u p = compareSync B p (passwordHash u)"

section \<open>Mongoose: the model operations the controllers call\<close>

text \<open>
  Mongoose and the database are libraries, not code of the repository. The collection is
  the list of saved documents, in insertion order, and each operation below is the
  Mongoose call of the controllers, restricted to the schema of \<open>models/user.js\<close>: what
  the callback receives, and the collection afterwards. The unique indexes keep
  \<open>_id\<close>, \<open>username\<close> and \<open>email\<close> free of duplicates.

  \<open>new User(body)\<close> assigns the keys of the body one at a time, from the last key to the
  first (Mongoose 4 walks the keys backwards unless the schema sets \<open>retainKeyOrder\<close>,
  which this one does not): a schema path is set to the value, a virtual runs its setter,
  and strict mode drops every other key.
\<close>

definition set_path :: "bcrypt_lib \<Rightarrow> string \<Rightarrow> doc \<Rightarrow> string \<times> string \<Rightarrow> doc" where
  "set_path B slt d kv =
     (if fst kv = ''username'' then d\<lparr>doc_username := Some (snd kv)\<rparr>
      else if fst kv = ''email'' then d\<lparr>doc_email := Some (snd kv)\<rparr>
      else if fst kv = ''passwordHash'' then d\<lparr>doc_passwordHash := Some (snd kv)\<rparr>
      else if fst kv = ''password'' then set_password B slt d (snd kv)
      else if fst kv = ''passwordConfirmation'' then set_passwordConfirmation d (snd kv)
      else d)"

definition blank_doc :: "string \<Rightarrow> doc" where
  "blank_doc i =
     \<lparr>doc_id = i, doc_username = None, doc_email = None, doc_passwordHash = None,
      doc_password = None, doc_passwordConfirmation = None, isNew = True\<rparr>"

definition new_doc :: "bcrypt_lib \<Rightarrow> env \<Rightarrow> body \<Rightarrow> doc" where
  "new_doc B e b = foldl (set_path B (salt e)) (blank_doc (new_id e)) (rev b)"

definition required_errors :: "string \<Rightarrow> string option \<Rightarrow> (string \<times> string) list" where
  \<comment> \<open>\<open>required: true\<close> on a String path: unset and the empty string both fail\<close>
  "required_errors p v = (if truthy v then [] else [(p, ''required'')])"

definition validate_doc :: "doc \<Rightarrow> (string \<times> string) list" where
  \<comment> \<open>Only whether the list is empty decides the outcome of a save.\<close>
  "validate_doc d =
     required_errors ''username'' (doc_username d) @ required_errors ''email'' (doc_email d) @
     required_errors ''passwordHash'' (doc_passwordHash d) @ passwordHash_validator d"

definition to_user :: "doc \<Rightarrow> user option" where
  \<comment> \<open>the document as saved; every path is set once \<open>validate_doc\<close> has passed\<close>
  "to_user d =
     (case (doc_username d, doc_email d, doc_passwordHash d) of
        (Some n, Some m, Some h) \<Rightarrow>
          Some \<lparr>uid = doc_id d, username = n, email = m, passwordHash = h, version = 0\<rparr>
      | _ \<Rightarrow> None)"

definition clashes :: "user \<Rightarrow> store \<Rightarrow> bool" where
  \<comment> \<open>the unique indexes on \<open>_id\<close>, \<open>username\<close> and \<open>email\<close>\<close>
  "clashes u db =
     (\<exists>x \<in> set db. uid x = uid u \<or> username x = username u \<or> email x = email u)"

definition model_create :: "bcrypt_lib \<Rightarrow> env \<Rightarrow> store \<Rightarrow> body \<Rightarrow> store \<times> (err + user)" where
  \<comment> \<open>\<open>User.create(body, cb)\<close>: validate, then insert; the sum is what \<open>cb\<close> receives\<close>
  "model_create B e db b =
     (let d = new_doc B e b; errs = validate_doc d in
      if errs \<noteq> [] then (db, Inl (ValidationError errs))
      else case store_fault e of
        Some x \<Rightarrow> (db, Inl x)
      | None \<Rightarrow>
          (case to_user d of
             None \<Rightarrow> (db, Inl (ValidationError errs))
           | Some u \<Rightarrow> if clashes u db then (db, Inl DuplicateKey) else (db @ [u], Inr u)))"

definition model_find :: "env \<Rightarrow> store \<Rightarrow> err + user list" where
  "model_find e db = (case store_fault e of Some x \<Rightarrow> Inl x | None \<Rightarrow> Inr db)"

definition model_findOne_email :: "env \<Rightarrow> store \<Rightarrow> string option \<Rightarrow> err + user option" where
  \<comment> \<open>\<open>User.findOne({email: v}, cb)\<close>; an \<open>undefined\<close> value matches no saved document\<close>
  "model_findOne_email e db v =
     (case store_fault e of
        Some x \<Rightarrow> Inl x
      | None \<Rightarrow> Inr (find (\<lambda>u. Some (email u) = v) db))"

definition model_findById :: "env \<Rightarrow> store \<Rightarrow> string \<Rightarrow> err + user option" where
  "model_findById e db i =
     (case store_fault e of Some x \<Rightarrow> Inl x | None \<Rightarrow> Inr (find (\<lambda>u. uid u = i) db))"

text \<open>
  \<open>findByIdAndUpdate(id, body, {new: true, runValidators: true}, cb)\<close> does not build a
  document: the keys of the body that are schema paths are written as they are, virtuals
  and unknown keys are dropped, and the update validators run without a document as
  \<open>this\<close>, so that \<open>this.isNew\<close> is unset in the validator of \<open>passwordHash\<close>.
\<close>

definition update_path :: "user \<Rightarrow> string \<times> string \<Rightarrow> user" where
  "update_path u kv =
     (if fst kv = ''username'' then u\<lparr>username := snd kv\<rparr>
      else if fst kv = ''email'' then u\<lparr>email := snd kv\<rparr>
      else if fst kv = ''passwordHash'' then u\<lparr>passwordHash := snd kv\<rparr>
      else u)"

definition update_errors :: "body \<Rightarrow> (string \<times> string) list" where
  "update_errors b =
     concat (map (\<lambda>kv. if fst kv \<in> {''username'', ''email'', ''passwordHash''}
                        then required_errors (fst kv) (Some (snd kv)) else []) b)"

definition update_clashes :: "user \<Rightarrow> store \<Rightarrow> bool" where
  \<comment> \<open>the unique indexes, against the other documents\<close>
  "update_clashes u db =
     (\<exists>x \<in> set db. uid x \<noteq> uid u \<and> (username x = username u \<or> email x = email u))"

definition model_findByIdAndUpdate ::
  "env \<Rightarrow> store \<Rightarrow> string \<Rightarrow> body \<Rightarrow> store \<times> (err + user option)" where
  "model_findByIdAndUpdate e db i b =
     (if update_errors b \<noteq> [] then (db, Inl (ValidationError (update_errors b)))
      else case store_fault e of
        Some x \<Rightarrow> (db, Inl x)
      | None \<Rightarrow>
          (case find (\<lambda>u. uid u = i) db of
             None \<Rightarrow> (db, Inr None)
           | Some u \<Rightarrow>
               (let u' = foldl update_path u b in
                if update_clashes u' db then (db, Inl DuplicateKey)
                else (map (\<lambda>x. if uid x = i then u' else x) db, Inr (Some u')))))"

definition model_findByIdAndRemove :: "env \<Rightarrow> store \<Rightarrow> string \<Rightarrow> store \<times> err option" where
  "model_findByIdAndRemove e db i =
     (case store_fault e of
        Some x \<Rightarrow> (db, Some x)
      | None \<Rightarrow> (filter (\<lambda>u. uid u \<noteq> i) db, None))"

section \<open>controllers/authentications.js\<close>

text \<open>
  A Node callback receives \<open>(err, value)\<close>: on an error the value is \<open>undefined\<close>.
\<close>

definition cb_err :: "err + 'a \<Rightarrow> err option" where
  "cb_err r = (case r of Inl x \<Rightarrow> Some x | Inr v \<Rightarrow> None)"

definition cb_value :: "err + 'a option \<Rightarrow> 'a option" where
  "cb_value r = (case r of Inl x \<Rightarrow> None | Inr v \<Rightarrow> v)"

definition expiresIn :: nat where
  "expiresIn = 60 * 60 * 24"

definition token_for :: "jwt_lib \<Rightarrow> string \<Rightarrow> env \<Rightarrow> user \<Rightarrow> string" where
  \<comment> \<open>the two lines building \<open>payload\<close> and \<open>token\<close>, the same in \<open>register\<close> and \<open>login\<close>\<close>
  "token_for J secret e u =
     sign J \<lparr>payload_id = uid u, payload_username = username u\<rparr> secret expiresIn (clock e)"

definition success :: "string \<Rightarrow> res_call list" where
  "success token =
     [Status 200, Json (JObj [(''message'', JStr ''Success''), (''token'', JStr token)])]"

definition invalid_credentials :: "res_call list" where
  "invalid_credentials = [Status 401, Json (JObj [(''message'', JStr ''Invalid credentials'')])]"

definition register_cb :: "jwt_lib \<Rightarrow> string \<Rightarrow> env \<Rightarrow> err + user \<Rightarrow> outcome" where
  "register_cb J secret e r =
     (case r of
        Inl x \<Rightarrow> Done [Status 400, Json (JErr x)]
      | Inr u \<Rightarrow> Done (success (token_for J secret e u)))"

definition register ::
  "bcrypt_lib \<Rightarrow> jwt_lib \<Rightarrow> string \<Rightarrow> env \<Rightarrow> store \<Rightarrow> body \<Rightarrow> store \<times> outcome" where
  "register B J secret e db b =
     (case model_create B e db b of (db', r) \<Rightarrow> (db', register_cb J secret e r))"

definition login_rest ::
  "bcrypt_lib \<Rightarrow> jwt_lib \<Rightarrow> string \<Rightarrow> env \<Rightarrow> body \<Rightarrow> user option \<Rightarrow> res_call list \<Rightarrow> outcome" where
  \<comment> \<open>the callback from its second statement on, with the calls \<open>log\<close> made before\<close>
  "login_rest B J secret e b usr log =
     (case usr of
        None \<Rightarrow> res_json (log @ [Status 401]) (JObj [(''message'', JStr ''Invalid credentials'')])
      | Some u \<Rightarrow>
          (case validatePassword B u (body_get b ''password'') of
             Inl x \<Rightarrow> Threw log x
           | Inr ok \<Rightarrow>
               if \<not> ok
               then res_json (log @ [Status 401]) (JObj [(''message'', JStr ''Invalid credentials'')])
               else res_json (log @ [Status 200])
                      (JObj [(''message'', JStr ''Success''),
                             (''token'', JStr (token_for J secret e u))])))"

definition login_cb ::
  "bcrypt_lib \<Rightarrow> jwt_lib \<Rightarrow> string \<Rightarrow> env \<Rightarrow> body \<Rightarrow> err + user option \<Rightarrow> outcome" where
  \<comment> \<open>The first \<open>if\<close> has no \<open>return\<close>; in \<open>res.send(500).json(err)\<close> the call of
      \<open>json\<close> is on a response that \<open>send\<close> has just sent, and its exception leaves the
      callback before the second statement.\<close>
  "login_cb B J secret e b r =
     (case cb_err r of
        Some x \<Rightarrow>
          (case res_json [Send_status 500] (JErr x) of
             Threw cs m \<Rightarrow> Threw cs m
           | Done cs \<Rightarrow> login_rest B J secret e b (cb_value r) cs)
      | None \<Rightarrow> login_rest B J secret e b (cb_value r) [])"

definition login ::
  "bcrypt_lib \<Rightarrow> jwt_lib \<Rightarrow> string \<Rightarrow> env \<Rightarrow> store \<Rightarrow> body \<Rightarrow> outcome" where
  "login B J secret e db b =
     login_cb B J secret e b (model_findOne_email e db (body_get b ''email''))"

section \<open>controllers/users.js\<close>

definition usersIndex_cb :: "err + user list \<Rightarrow> outcome" where
  "usersIndex_cb r =
     (case r of
        Inl x \<Rightarrow> Done [Status 500, Json (JErr x)]
      | Inr us \<Rightarrow> Done [Status 200, Json (JArr (map toJSON us))])"

definition usersCreate_cb :: "err + user \<Rightarrow> outcome" where
  "usersCreate_cb r =
     (case r of
        Inl x \<Rightarrow> Done [Status 400, Json (JErr x)]
      | Inr u \<Rightarrow> Done [Status 201, Json (toJSON u)])"

definition usersShow_cb :: "err + user option \<Rightarrow> outcome" where
  "usersShow_cb r =
     (case r of
        Inl x \<Rightarrow> Done [Status 500, Json (JErr x)]
      | Inr None \<Rightarrow>
          Done [Status 404, Json (JObj [(''message'', JStr ''Could not find a user with that id'')])]
      | Inr (Some u) \<Rightarrow> Done [Status 200, Json (toJSON u)])"

definition usersUpdate_cb :: "err + user option \<Rightarrow> outcome" where
  \<comment> \<open>no test for a missing document: \<open>res.json(null)\<close> then\<close>
  "usersUpdate_cb r =
     (case r of
        Inl x \<Rightarrow> Done [Status 400, Json (JErr x)]
      | Inr None \<Rightarrow> Done [Status 200, Json JNull]
      | Inr (Some u) \<Rightarrow> Done [Status 200, Json (toJSON u)])"

definition usersDelete_cb :: "err option \<Rightarrow> outcome" where
  "usersDelete_cb r =
     (case r of
        Some x \<Rightarrow> Done [Status 500, Json (JErr x)]
      | None \<Rightarrow> Done [Status 204, Send_empty])"

definition usersIndex :: "env \<Rightarrow> store \<Rightarrow> store \<times> outcome" where
  "usersIndex e db = (db, usersIndex_cb (model_find e db))"

definition usersCreate :: "bcrypt_lib \<Rightarrow> env \<Rightarrow> store \<Rightarrow> body \<Rightarrow> store \<times> outcome" where
  "usersCreate B e db b = (case model_create B e db b of (db', r) \<Rightarrow> (db', usersCreate_cb r))"

definition usersShow :: "env \<Rightarrow> store \<Rightarrow> string \<Rightarrow> store \<times> outcome" where
  "usersShow e db i = (db, usersShow_cb (model_findById e db i))"

definition usersUpdate :: "env \<Rightarrow> store \<Rightarrow> string \<Rightarrow> body \<Rightarrow> store \<times> outcome" where
  "usersUpdate e db i b =
     (case model_findByIdAndUpdate e db i b of (db', r) \<Rightarrow> (db', usersUpdate_cb r))"

definition usersDelete :: "env \<Rightarrow> store \<Rightarrow> string \<Rightarrow> store \<times> outcome" where
  "usersDelete e db i =
     (case model_findByIdAndRemove e db i of (db', r) \<Rightarrow> (db', usersDelete_cb r))"

section \<open>config/routes.js\<close>

text \<open>
  \<open>s.replace(pat, rep)\<close> with a string pattern replaces the leftmost occurrence only.
  The replacement used here is the empty string, so the \<open>$\<close> patterns of a
  replacement string do not arise.
\<close>

fun replace_first :: "'a list \<Rightarrow> 'a list \<Rightarrow> 'a list \<Rightarrow> 'a list" where
  "replace_first pat rep [] = (if pat = [] then rep else [])"
| "replace_first pat rep (x # xs) =
     (if prefix pat (x # xs) then rep @ drop (length pat) (x # xs)
      else x # replace_first pat rep xs)"

datatype verb = GET | POST | PUT | PATCH | DELETE | OTHER

datatype path = Users | Users_id string | Register | Login | Elsewhere

record request =
  meth :: verb
  req_path :: path
  authorization :: "string option"
  req_body :: body
  req_user :: "decoded option"

datatype gate = Rejected "res_call list" | Next request

definition unauthorized :: "res_call list" where
  "unauthorized = [Status 401, Json (JObj [(''message'', JStr ''Unauthorized'')])]"

definition bearer_token :: "string \<Rightarrow> string" where
  "bearer_token h = replace_first ''Bearer '' [] h"

definition secureRoute :: "jwt_lib \<Rightarrow> string \<Rightarrow> env \<Rightarrow> request \<Rightarrow> gate" where
  "secureRoute J secret e req =
     (if \<not> truthy (authorization req) then Rejected unauthorized
      else case authorization req of
        None \<Rightarrow> Rejected unauthorized
      | Some h \<Rightarrow>
          (case verify J (bearer_token h) secret (clock e) of
             (Some x, p) \<Rightarrow> Rejected unauthorized
           | (None, None) \<Rightarrow> Rejected unauthorized
           | (None, Some p) \<Rightarrow> Next (req\<lparr>req_user := Some p\<rparr>)))"

datatype handler =
  UsersIndex | UsersCreate | UsersShow | UsersUpdate | UsersDelete | AuthRegister | AuthLogin

fun secured :: "path \<Rightarrow> bool" where
  "secured Users = True"
| "secured (Users_id i) = True"
| "secured p = False"

fun route :: "path \<Rightarrow> verb \<Rightarrow> handler option" where
  "route Users GET = Some UsersIndex"
| "route Users POST = Some UsersCreate"
| "route (Users_id i) GET = Some UsersShow"
| "route (Users_id i) PUT = Some UsersUpdate"
| "route (Users_id i) PATCH = Some UsersUpdate"
| "route (Users_id i) DELETE = Some UsersDelete"
| "route Register POST = Some AuthRegister"
| "route Login POST = Some AuthLogin"
| "route p m = None"

text \<open>
  What the router does with a request: answer it itself, call a handler with the request
  as the gate left it, or pass it on to whatever follows the router in the application.
\<close>

datatype dispatch = Respond "res_call list" | Invoke handler request | Pass_on

definition router :: "jwt_lib \<Rightarrow> string \<Rightarrow> env \<Rightarrow> request \<Rightarrow> dispatch" where
  "router J secret e req =
     (if secured (req_path req) then
        (case secureRoute J secret e req of
           Rejected cs \<Rightarrow> Respond cs
         | Next req' \<Rightarrow>
             (case route (req_path req') (meth req') of
                Some h \<Rightarrow> Invoke h req'
              | None \<Rightarrow> Pass_on))
      else
        (case route (req_path req) (meth req) of
           Some h \<Rightarrow> Invoke h req
         | None \<Rightarrow> Pass_on))"

definition params_id :: "request \<Rightarrow> string" where
  \<comment> \<open>\<open>req.params.id\<close>\<close>
  "params_id req = (case req_path req of Users_id i \<Rightarrow> i | _ \<Rightarrow> [])"

fun run_handler ::
  "bcrypt_lib \<Rightarrow> jwt_lib \<Rightarrow> string \<Rightarrow> env \<Rightarrow> store \<Rightarrow> handler \<Rightarrow> request \<Rightarrow> store \<times> outcome" where
  "run_handler B J secret e db UsersIndex req = usersIndex e db"
| "run_handler B J secret e db UsersCreate req = usersCreate B e db (req_body req)"
| "run_handler B J secret e db UsersShow req = usersShow e db (params_id req)"
| "run_handler B J secret e db UsersUpdate req = usersUpdate e db (params_id req) (req_body req)"
| "run_handler B J secret e db UsersDelete req = usersDelete e db (params_id req)"
| "run_handler B J secret e db AuthRegister req = register B J secret e db (req_body req)"
| "run_handler B J secret e db AuthLogin req = (db, login B J secret e db (req_body req))"

definition serve ::
  "bcrypt_lib \<Rightarrow> jwt_lib \<Rightarrow> string \<Rightarrow> env \<Rightarrow> store \<Rightarrow> request \<Rightarrow> store \<times> outcome" where
  \<comment> \<open>\<open>app.use('/api', routes)\<close>; a request passed on gets no call from this code\<close>
  "serve B J secret e db req =
     (case router J secret e req of
        Respond cs \<Rightarrow> (db, Done cs)
      | Invoke h req' \<Rightarrow> run_handler B J secret e db h req'
      | Pass_on \<Rightarrow> (db, Done []))"

section \<open>Reading a response body\<close>

text \<open>
  Whether a response body shows a field of an Identity: a key of the object itself, or of
  an object in the array. Error objects come from the libraries and are not Identities.
\<close>

fun object_has :: "string \<Rightarrow> json \<Rightarrow> bool" where
  "object_has k (JObj kvs) = (k \<in> fst ` set kvs)"
| "object_has k j = False"

fun exposes :: "string \<Rightarrow> json \<Rightarrow> bool" where
  "exposes k (JObj kvs) = (k \<in> fst ` set kvs)"
| "exposes k (JArr js) = (\<exists>j \<in> set js. object_has k j)"
| "exposes k j = False"

section \<open>The contract of the token library\<close>

text \<open>
  Modelled from the spec: jsonwebtoken is not among the sources, so what \<open>sign\<close> and
  \<open>verify\<close> promise each other is taken from the specification of the Token Service:
  a token encodes the payload and an expiry \<open>expiresIn\<close> seconds after issuance, and
  verifying it with the secret it was signed with returns the payload while the clock is
  before the expiry and fails from the expiry on.
\<close>

definition jwt_contract :: "jwt_lib \<Rightarrow> bool" where
  \<comment> \<open>Modelled from the spec: the Token Service's \<open>issue\<close> and \<open>verify\<close> (jsonwebtoken is
      not among the sources).\<close>
  "jwt_contract J =
     (\<forall>p s ttl t now.
        verify J (sign J p s ttl t) s now =
          (if now < t + ttl
           then (None, Some \<lparr>payload_id = payload_id p, payload_username = payload_username p,
                              iat = t, exp = t + ttl\<rparr>)
           else (Some TokenExpiredError, None)))"

section \<open>A small implementation of the libraries\<close>

text \<open>
  The theorems hold for every bcrypt and every token library that keeps the contract.
  The instances below show that such libraries exist and serve as concrete inputs. A
  token lists the secret, the two payload fields, the issue time and the expiry, each
  string behind its length and each number in unary.
\<close>

definition enc_nat :: "nat \<Rightarrow> string" where
  "enc_nat n = replicate n CHR ''1'' @ ''.''"

definition dec_nat :: "string \<Rightarrow> nat \<times> string" where
  "dec_nat t = (length (takeWhile (\<lambda>c. c = CHR ''1'') t), drop 1 (dropWhile (\<lambda>c. c = CHR ''1'') t))"

definition enc_str :: "string \<Rightarrow> string" where
  "enc_str s = enc_nat (length s) @ s"

definition dec_str :: "string \<Rightarrow> string \<times> string" where
  "dec_str t = (case dec_nat t of (n, r) \<Rightarrow> (take n r, drop n r))"

definition demo_sign :: "jwt_payload \<Rightarrow> string \<Rightarrow> nat \<Rightarrow> nat \<Rightarrow> string" where
  "demo_sign p s ttl t =
     enc_str s @ enc_str (payload_id p) @ enc_str (payload_username p) @ enc_nat t @ enc_nat (t + ttl)"

definition demo_verify :: "string \<Rightarrow> string \<Rightarrow> nat \<Rightarrow> jwt_error option \<times> decoded option" where
  "demo_verify tok s now =
     (case dec_str tok of (s', r1) \<Rightarrow>
      case dec_str r1 of (i, r2) \<Rightarrow>
      case dec_str r2 of (n, r3) \<Rightarrow>
      case dec_nat r3 of (t, r4) \<Rightarrow>
      case dec_nat r4 of (x, r5) \<Rightarrow>
        if s' = s \<and> r5 = [] then
          (if now < x
           then (None, Some \<lparr>payload_id = i, payload_username = n, iat = t, exp = x\<rparr>)
           else (Some TokenExpiredError, None))
        else (Some JsonWebTokenError, None))"

definition demo_jwt :: jwt_lib where
  "demo_jwt = \<lparr>sign = demo_sign, verify = demo_verify\<rparr>"

definition demo_bcrypt :: bcrypt_lib where
  "demo_bcrypt =
     \<lparr>hashSync = (\<lambda>p slt. slt @ ''$'' @ p),
      compareSync = (\<lambda>p h. case p of
                        None \<Rightarrow> Inl ''data and hash arguments required''
                      | Some q \<Rightarrow> Inr (suffix (''$'' @ q) h))\<rparr>"

definition demo_env :: env where
  "demo_env = \<lparr>clock = 1000, salt = ''salt'', new_id = ''id1'', store_fault = None\<rparr>"

definition demo_body :: body where
  "demo_body =
     [(''username'', ''chansec''), (''email'', ''chanse@chanse.com''),
      (''password'', ''password''), (''passwordConfirmation'', ''password'')]"

definition demo_user :: user where
  "demo_user =
     \<lparr>uid = ''id1'', username = ''chansec'', email = ''chanse@chanse.com'',
      passwordHash = ''salt$password'', version = 0\<rparr>"

definition short_env :: env where
  "short_env = \<lparr>clock = 2, salt = ''salt'', new_id = ''id2'', store_fault = None\<rparr>"

definition short_token :: string where
  \<comment> \<open>\<open>demo_sign\<close> of the payload \<open>id1\<close>, \<open>bo\<close> with the secret \<open>s\<close>, issued at 1 for 3 seconds\<close>
  "short_token = ''1.s111.id111.bo1.1111.''"

definition demo_request :: "verb \<Rightarrow> path \<Rightarrow> string option \<Rightarrow> request" where
  "demo_request m p h =
     \<lparr>meth = m, req_path = p, authorization = h, req_body = [], req_user = None\<rparr>"

section \<open>The small implementation keeps the contract\<close>

lemma dec_enc_nat: "dec_nat (enc_nat n @ r) = (n, r)"
  by (induction n) (simp_all add: dec_nat_def enc_nat_def)

lemma dec_enc_str: "dec_str (enc_str s @ r) = (s, r)"
  by (simp add: dec_str_def enc_str_def dec_enc_nat)

lemma demo_jwt_contract: "jwt_contract demo_jwt"
  unfolding jwt_contract_def demo_jwt_def
  apply (simp add: demo_sign_def demo_verify_def dec_enc_str dec_enc_nat)
  using dec_enc_nat[of _ "[]"] apply simp
  done

lemma short_token_signed:
  "short_token = sign demo_jwt \<lparr>payload_id = ''id1'', payload_username = ''bo''\<rparr> ''s'' 3 1"
  by (simp add: short_token_def demo_jwt_def demo_sign_def enc_str_def enc_nat_def numeral_eq_Suc)

lemma short_token_verifies:
  "verify demo_jwt short_token ''s'' 2 =
     (None, Some \<lparr>payload_id = ''id1'', payload_username = ''bo'', iat = 1, exp = 4\<rparr>)"
  by (simp add: short_token_def demo_jwt_def demo_verify_def dec_str_def dec_nat_def)

lemma short_token_plain: "\<not> sublist ''Bearer '' short_token"
  unfolding short_token_def by code_simp

section \<open>Replacing the first occurrence\<close>

lemma replace_first_absent: "\<not> sublist pat xs \<Longrightarrow> replace_first pat rep xs = xs"
proof (induction xs)
  case Nil
  then show ?case by auto
next
  case (Cons x xs)
  then show ?case by (simp add: sublist_Cons_right)
qed

lemma replace_first_at_front: "replace_first pat rep (pat @ b) = rep @ b"
proof (cases "pat @ b")
  case Nil
  then show ?thesis by simp
next
  case (Cons x xs)
  have "prefix pat (pat @ b)" by simp
  then have "replace_first pat rep (x # xs) = rep @ drop (length pat) (x # xs)"
    unfolding Cons by simp
  then show ?thesis by (simp flip: Cons)
qed

lemma replace_first_leftmost:
  assumes "xs = a @ pat @ b"
    and "\<forall>a' b'. xs = a' @ pat @ b' \<longrightarrow> length a \<le> length a'"
  shows "replace_first pat rep xs = a @ rep @ b"
  using assms
proof (induction a arbitrary: xs)
  case Nil
  then show ?case by (simp add: replace_first_at_front)
next
  case (Cons y a)
  have np: "\<not> prefix pat xs"
  proof
    assume "prefix pat xs"
    then obtain r where "xs = [] @ pat @ r" by (auto simp: prefix_def)
    with Cons.prems(2) have "length (y # a) \<le> length ([]::'a list)" by blast
    then show False by simp
  qed
  have min: "\<forall>a' b'. a @ pat @ b = a' @ pat @ b' \<longrightarrow> length a \<le> length a'"
  proof (intro allI impI)
    fix a' b'
    assume "a @ pat @ b = a' @ pat @ b'"
    then have "xs = (y # a') @ pat @ b'" using Cons.prems(1) by simp
    with Cons.prems(2) have "length (y # a) \<le> length (y # a')" by blast
    then show "length a \<le> length a'" by simp
  qed
  have "replace_first pat rep (a @ pat @ b) = a @ rep @ b"
    using Cons.IH[OF refl min] .
  with np Cons.prems(1) show ?case by simp
qed

lemma bearer_short_token: "bearer_token (''Bearer '' @ short_token) = short_token"
  unfolding bearer_token_def by (rule replace_first_at_front[where rep = "[]", simplified])

section \<open>Looking up a document\<close>

lemma find_none_email: "\<forall>x \<in> set db. email x \<noteq> a \<Longrightarrow> find (\<lambda>u. Some (email u) = Some a) db = None"
  by (induction db) auto

lemma find_some_email:
  "\<exists>x \<in> set db. email x = a \<Longrightarrow> \<exists>u. find (\<lambda>u. Some (email u) = Some a) db = Some u \<and> u \<in> set db \<and> email u = a"
  by (induction db) auto

lemma find_Some_mem: "find P xs = Some x \<Longrightarrow> x \<in> set xs"
  by (induction xs) (auto split: if_splits)

section \<open>Building and updating a document\<close>

lemma set_path_fields:
  "isNew (set_path B s d kv) = isNew d"
  "doc_id (set_path B s d kv) = doc_id d"
  "doc_username (set_path B s d kv) = (if fst kv = ''username'' then Some (snd kv) else doc_username d)"
  "doc_email (set_path B s d kv) = (if fst kv = ''email'' then Some (snd kv) else doc_email d)"
  "doc_password (set_path B s d kv) = (if fst kv = ''password'' then Some (snd kv) else doc_password d)"
  "doc_passwordConfirmation (set_path B s d kv) =
     (if fst kv = ''passwordConfirmation'' then Some (snd kv) else doc_passwordConfirmation d)"
  "doc_passwordHash (set_path B s d kv) =
     (if fst kv = ''passwordHash'' then Some (snd kv)
      else if fst kv = ''password'' then Some (hashSync B (snd kv) s)
      else doc_passwordHash d)"
  by (simp_all add: set_path_def set_password_def set_passwordConfirmation_def)

lemma update_path_hash:
  "passwordHash (update_path u kv) = (if fst kv = ''passwordHash'' then snd kv else passwordHash u)"
  by (simp add: update_path_def)

lemma foldl_set_path_fixed:
  "isNew (foldl (set_path B s) d b) = isNew d \<and> doc_id (foldl (set_path B s) d b) = doc_id d"
  by (induction b arbitrary: d) (simp_all add: set_path_fields)

lemma foldl_set_path_password:
  "distinct (map fst b) \<Longrightarrow>
   doc_password (foldl (set_path B s) d b) =
     (case map_of b ''password'' of Some v \<Rightarrow> Some v | None \<Rightarrow> doc_password d)"
proof (induction b arbitrary: d)
  case Nil
  then show ?case by simp
next
  case (Cons kv b)
  then have absent: "map_of b (fst kv) = None"
    by (simp add: map_of_eq_None_iff)
  show ?case
  proof (cases "fst kv = ''password''")
    case True
    with absent Cons show ?thesis
      by (simp add: set_path_fields)
  next
    case False
    with Cons show ?thesis
      by (simp add: set_path_fields split: option.splits)
  qed
qed

lemma foldl_set_path_confirmation:
  "distinct (map fst b) \<Longrightarrow>
   doc_passwordConfirmation (foldl (set_path B s) d b) =
     (case map_of b ''passwordConfirmation'' of Some v \<Rightarrow> Some v
      | None \<Rightarrow> doc_passwordConfirmation d)"
proof (induction b arbitrary: d)
  case Nil
  then show ?case by simp
next
  case (Cons kv b)
  then have absent: "map_of b (fst kv) = None"
    by (simp add: map_of_eq_None_iff)
  show ?case
  proof (cases "fst kv = ''passwordConfirmation''")
    case True
    with absent Cons show ?thesis
      by (simp add: set_path_fields)
  next
    case False
    with Cons show ?thesis
      by (simp add: set_path_fields split: option.splits)
  qed
qed

lemma foldl_set_path_username:
  "distinct (map fst b) \<Longrightarrow>
   doc_username (foldl (set_path B s) d b) =
     (case map_of b ''username'' of Some v \<Rightarrow> Some v | None \<Rightarrow> doc_username d)"
proof (induction b arbitrary: d)
  case Nil
  then show ?case by simp
next
  case (Cons kv b)
  then have absent: "map_of b (fst kv) = None"
    by (simp add: map_of_eq_None_iff)
  show ?case
  proof (cases "fst kv = ''username''")
    case True
    with absent Cons show ?thesis
      by (simp add: set_path_fields)
  next
    case False
    with Cons show ?thesis
      by (simp add: set_path_fields split: option.splits)
  qed
qed

lemma foldl_set_path_email:
  "distinct (map fst b) \<Longrightarrow>
   doc_email (foldl (set_path B s) d b) =
     (case map_of b ''email'' of Some v \<Rightarrow> Some v | None \<Rightarrow> doc_email d)"
proof (induction b arbitrary: d)
  case Nil
  then show ?case by simp
next
  case (Cons kv b)
  then have absent: "map_of b (fst kv) = None"
    by (simp add: map_of_eq_None_iff)
  show ?case
  proof (cases "fst kv = ''email''")
    case True
    with absent Cons show ?thesis
      by (simp add: set_path_fields)
  next
    case False
    with Cons show ?thesis
      by (simp add: set_path_fields split: option.splits)
  qed
qed

lemma foldl_set_path_hash:
  "distinct (map fst b) \<Longrightarrow>
   doc_passwordHash (foldl (set_path B s) d b) = Some h \<Longrightarrow>
   doc_passwordHash d = Some h \<or>
   (\<exists>p. map_of b ''password'' = Some p \<and> h = hashSync B p s) \<or>
   map_of b ''passwordHash'' = Some h"
proof (induction b arbitrary: d)
  case Nil
  then show ?case by simp
next
  case (Cons kv b)
  then have absent: "map_of b (fst kv) = None"
    by (simp add: map_of_eq_None_iff)
  from Cons.prems have d: "distinct (map fst b)"
    and r: "doc_passwordHash (foldl (set_path B s) (set_path B s d kv) b) = Some h"
    by simp_all
  from Cons.IH[OF d r] consider
      (old) "doc_passwordHash (set_path B s d kv) = Some h"
    | (pw) p where "map_of b ''password'' = Some p" "h = hashSync B p s"
    | (direct) "map_of b ''passwordHash'' = Some h"
    by blast
  then show ?case
  proof cases
    case old
    then show ?thesis
      by (auto simp: set_path_fields split: if_splits)
  next
    case pw
    with absent have "fst kv \<noteq> ''password''" by auto
    with pw show ?thesis by simp
  next
    case direct
    with absent have "fst kv \<noteq> ''passwordHash''" by auto
    with direct show ?thesis by simp
  qed
qed

lemma foldl_set_path_hash_derived:
  "distinct (map fst b) \<Longrightarrow> map_of b ''passwordHash'' = None \<Longrightarrow>
   doc_passwordHash (foldl (set_path B s) d b) =
     (case map_of b ''password'' of Some p \<Rightarrow> Some (hashSync B p s)
      | None \<Rightarrow> doc_passwordHash d)"
proof (induction b arbitrary: d)
  case Nil
  then show ?case by simp
next
  case (Cons kv b)
  then have absent: "map_of b (fst kv) = None"
    by (simp add: map_of_eq_None_iff)
  from Cons.prems(2) have k: "fst kv \<noteq> ''passwordHash''" and r: "map_of b ''passwordHash'' = None"
    by (auto split: if_splits)
  show ?case
  proof (cases "fst kv = ''password''")
    case True
    with absent Cons.prems(1) r show ?thesis
      by (simp add: Cons.IH set_path_fields)
  next
    case False
    with k Cons.prems(1) r show ?thesis
      by (simp add: Cons.IH set_path_fields split: option.splits)
  qed
qed

lemma foldl_update_path_hash:
  "distinct (map fst b) \<Longrightarrow>
   passwordHash (foldl update_path u b) =
     (case map_of b ''passwordHash'' of Some h \<Rightarrow> h | None \<Rightarrow> passwordHash u)"
proof (induction b arbitrary: u)
  case Nil
  then show ?case by simp
next
  case (Cons kv b)
  then have absent: "map_of b (fst kv) = None"
    by (simp add: map_of_eq_None_iff)
  show ?case
  proof (cases "fst kv = ''passwordHash''")
    case True
    with absent Cons show ?thesis by (simp add: update_path_hash)
  next
    case False
    with Cons show ?thesis by (simp add: update_path_hash split: option.splits)
  qed
qed

lemma map_of_rev_distinct: "distinct (map fst b) \<Longrightarrow> map_of (rev b) = map_of b"
  by (subst map_of_inject_set) (simp_all add: rev_map[symmetric])

lemma new_doc_fields:
  assumes "distinct (map fst b)"
  shows "isNew (new_doc B e b)"
    and "doc_id (new_doc B e b) = new_id e"
    and "doc_username (new_doc B e b) = body_get b ''username''"
    and "doc_email (new_doc B e b) = body_get b ''email''"
    and "doc_password (new_doc B e b) = body_get b ''password''"
    and "doc_passwordConfirmation (new_doc B e b) = body_get b ''passwordConfirmation''"
proof -
  from assms have d: "distinct (map fst (rev b))" by (simp add: rev_map[symmetric])
  note m = map_of_rev_distinct[OF assms]
  show "isNew (new_doc B e b)" "doc_id (new_doc B e b) = new_id e"
    by (simp_all add: new_doc_def foldl_set_path_fixed blank_doc_def)
  show "doc_username (new_doc B e b) = body_get b ''username''"
    by (simp add: new_doc_def foldl_set_path_username[OF d] m blank_doc_def body_get_def
        split: option.splits)
  show "doc_email (new_doc B e b) = body_get b ''email''"
    by (simp add: new_doc_def foldl_set_path_email[OF d] m blank_doc_def body_get_def
        split: option.splits)
  show "doc_password (new_doc B e b) = body_get b ''password''"
    by (simp add: new_doc_def foldl_set_path_password[OF d] m blank_doc_def body_get_def
        split: option.splits)
  show "doc_passwordConfirmation (new_doc B e b) = body_get b ''passwordConfirmation''"
    by (simp add: new_doc_def foldl_set_path_confirmation[OF d] m blank_doc_def body_get_def
        split: option.splits)
qed

lemma new_doc_hash_derived:
  assumes "distinct (map fst b)" and "body_get b ''passwordHash'' = None"
    and "body_get b ''password'' = Some p"
  shows "doc_passwordHash (new_doc B e b) = Some (hashSync B p (salt e))"
proof -
  from assms(1) have d: "distinct (map fst (rev b))" by (simp add: rev_map[symmetric])
  note m = map_of_rev_distinct[OF assms(1)]
  from assms(2,3) show ?thesis
    by (simp add: new_doc_def foldl_set_path_hash_derived[OF d] m body_get_def)
qed

lemma new_doc_hash_origin:
  assumes "distinct (map fst b)" and "doc_passwordHash (new_doc B e b) = Some h"
  shows "(\<exists>p. body_get b ''password'' = Some p \<and> h = hashSync B p (salt e)) \<or>
         body_get b ''passwordHash'' = Some h"
proof -
  from assms(1) have d: "distinct (map fst (rev b))" by (simp add: rev_map[symmetric])
  note m = map_of_rev_distinct[OF assms(1)]
  from foldl_set_path_hash[OF d, of B "salt e" "blank_doc (new_id e)" h] assms(2)
  show ?thesis by (auto simp: new_doc_def m blank_doc_def body_get_def)
qed

lemma validator_rejects:
  assumes "distinct (map fst b)"
    and "body_get b ''password'' = None \<or>
         body_get b ''password'' \<noteq> body_get b ''passwordConfirmation''"
  shows "passwordHash_validator (new_doc B e b) \<noteq> []"
proof -
  note f = new_doc_fields[OF assms(1), of B e]
  have n: "isNew (new_doc B e b)" by (rule f(1))
  have p: "doc_password (new_doc B e b) = body_get b ''password''" by (rule f(5))
  have c: "doc_passwordConfirmation (new_doc B e b) = body_get b ''passwordConfirmation''"
    by (rule f(6))
  from assms(2) n p c show ?thesis
    by (auto simp: passwordHash_validator_def truthy_def)
qed

lemma create_succeeds:
  assumes "distinct (map fst b)"
    and "body_get b ''username'' = Some n" and "n \<noteq> []"
    and "body_get b ''email'' = Some m" and "m \<noteq> []"
    and "body_get b ''password'' = Some p" and "p \<noteq> []"
    and "body_get b ''passwordConfirmation'' = Some p"
    and "body_get b ''passwordHash'' = None"
    and "hashSync B p (salt e) \<noteq> []"
    and "store_fault e = None"
    and "\<forall>x \<in> set db. uid x \<noteq> new_id e \<and> username x \<noteq> n \<and> email x \<noteq> m"
  shows "model_create B e db b =
           (db @ [\<lparr>uid = new_id e, username = n, email = m,
                    passwordHash = hashSync B p (salt e), version = 0\<rparr>],
            Inr \<lparr>uid = new_id e, username = n, email = m,
                  passwordHash = hashSync B p (salt e), version = 0\<rparr>)"
proof -
  let ?d = "new_doc B e b"
  let ?u = "\<lparr>uid = new_id e, username = n, email = m,
              passwordHash = hashSync B p (salt e), version = 0\<rparr>"
  note g = new_doc_fields[OF assms(1), of B e]
  have f: "isNew ?d" "doc_id ?d = new_id e" by (rule g(1), rule g(2))
  have un: "doc_username ?d = Some n" using assms(2) by (simp add: g(3))
  have em: "doc_email ?d = Some m" using assms(4) by (simp add: g(4))
  have pw: "doc_password ?d = Some p" using assms(6) by (simp add: g(5))
  have pc: "doc_passwordConfirmation ?d = Some p" using assms(8) by (simp add: g(6))
  have ph: "doc_passwordHash ?d = Some (hashSync B p (salt e))"
    by (rule new_doc_hash_derived[OF assms(1,9,6)])
  have v: "validate_doc ?d = []"
    using f un em pw pc ph assms(3,5,7,10)
    by (simp add: validate_doc_def required_errors_def truthy_def passwordHash_validator_def)
  have t: "to_user ?d = Some ?u"
    using f un em ph by (simp add: to_user_def)
  have c: "\<not> clashes ?u db"
    using assms(12) by (auto simp: clashes_def)
  from v t c assms(11) show ?thesis
    by (simp add: model_create_def Let_def)
qed

lemma create_digest_origin:
  assumes "distinct (map fst b)" and "model_create B e db b = (db', Inr u)"
  shows "db' = db @ [u] \<and>
         (\<exists>p. body_get b ''password'' = Some p \<and> body_get b ''passwordConfirmation'' = Some p \<and>
              (passwordHash u = hashSync B p (salt e) \<or>
               body_get b ''passwordHash'' = Some (passwordHash u)))"
proof -
  let ?d = "new_doc B e b"
  from assms(2) have v: "validate_doc ?d = []" and t: "to_user ?d = Some u" and s: "db' = db @ [u]"
    by (auto simp: model_create_def Let_def split: if_splits option.splits)
  note f = new_doc_fields[OF assms(1), of B e]
  have n: "isNew ?d" by (rule f(1))
  have pw: "doc_password ?d = body_get b ''password''" by (rule f(5))
  have pc: "doc_passwordConfirmation ?d = body_get b ''passwordConfirmation''" by (rule f(6))
  from v have "passwordHash_validator ?d = []" by (simp add: validate_doc_def)
  with n pw pc obtain p where p: "body_get b ''password'' = Some p"
      "body_get b ''passwordConfirmation'' = Some p"
    by (auto simp: passwordHash_validator_def truthy_def split: if_splits option.splits)
  from t have h: "doc_passwordHash ?d = Some (passwordHash u)"
    by (auto simp: to_user_def split: option.splits)
  from new_doc_hash_origin[OF assms(1) h] p
  have "passwordHash u = hashSync B p (salt e) \<or>
        body_get b ''passwordHash'' = Some (passwordHash u)"
    by auto
  with p s show ?thesis by blast
qed

lemma update_digest_origin:
  assumes "distinct (map fst b)" and "u' \<in> set (fst (model_findByIdAndUpdate e db i b))"
  shows "\<exists>u \<in> set db. passwordHash u' = passwordHash u \<or>
                       body_get b ''passwordHash'' = Some (passwordHash u')"
proof (cases "fst (model_findByIdAndUpdate e db i b) = db")
  case True
  with assms(2) show ?thesis by auto
next
  case False
  then obtain u where u: "find (\<lambda>u. uid u = i) db = Some u"
    and db': "fst (model_findByIdAndUpdate e db i b) =
                map (\<lambda>x. if uid x = i then foldl update_path u b else x) db"
    by (auto simp: model_findByIdAndUpdate_def Let_def split: if_splits option.splits)
  from u have m: "u \<in> set db" by (rule find_Some_mem)
  from assms(2) db' consider "u' = foldl update_path u b" | "u' \<in> set db" by auto
  then show ?thesis
  proof cases
    case 1
    then have "passwordHash u' =
                 (case map_of b ''passwordHash'' of Some h \<Rightarrow> h | None \<Rightarrow> passwordHash u)"
      by (simp add: foldl_update_path_hash[OF assms(1)])
    with m show ?thesis by (auto simp: body_get_def split: option.splits)
  next
    case 2
    then show ?thesis by auto
  qed
qed

section \<open>Tokens of the two authentication handlers\<close>

lemma register_success_token:
  "register B J secret e db b = (db', Done (success tok)) \<Longrightarrow> \<exists>u. tok = token_for J secret e u"
  by (auto simp: register_def register_cb_def success_def split: prod.splits sum.splits)

lemma login_success_token:
  "login B J secret e db b = Done (success tok) \<Longrightarrow> \<exists>u. tok = token_for J secret e u"
  by (auto simp: login_def login_cb_def login_rest_def res_json_def success_def cb_err_def
      cb_value_def split: option.splits sum.splits if_splits)

lemma token_for_lifetime:
  assumes "jwt_contract J"
  shows "(\<exists>d. verify J (token_for J secret e u) secret (clock e + 1) = (None, Some d) \<and>
              iat d = clock e \<and> exp d = clock e + 86400) \<and>
         verify J (token_for J secret e u) secret (clock e + 86401) = (Some TokenExpiredError, None)"
  using assms by (simp add: jwt_contract_def token_for_def expiresIn_def)

lemma demo_register:
  "register demo_bcrypt demo_jwt ''s'' demo_env [] demo_body =
     ([demo_user],
      Done [Status 200, Json (JObj [(''message'', JStr ''Success''),
                                    (''token'', JStr (token_for demo_jwt ''s'' demo_env demo_user))])])"
proof -
  have "model_create demo_bcrypt demo_env [] demo_body = ([] @ [demo_user], Inr demo_user)"
    unfolding demo_user_def
    using create_succeeds[of demo_body "''chansec''" "''chanse@chanse.com''" "''password''"
        demo_bcrypt demo_env "[]"]
    by (simp add: demo_body_def body_get_def demo_bcrypt_def demo_env_def)
  then show ?thesis by (simp add: register_def register_cb_def success_def)
qed

lemma demo_login:
  "login demo_bcrypt demo_jwt ''s'' demo_env [demo_user]
     [(''email'', ''chanse@chanse.com''), (''password'', ''password'')] =
   Done [Status 200, Json (JObj [(''message'', JStr ''Success''),
                                 (''token'', JStr (token_for demo_jwt ''s'' demo_env demo_user))])]"
  by (simp add: login_def login_cb_def login_rest_def res_json_def model_findOne_email_def
      body_get_def demo_env_def demo_user_def cb_err_def cb_value_def validatePassword_def demo_bcrypt_def suffix_def
      success_def)

section \<open>Serialised documents\<close>

lemma toJSON_fields:
  "toJSON u = JObj [(''_id'', JStr (uid u)), (''username'', JStr (username u)),
                    (''email'', JStr (email u))]"
  by (simp add: toJSON_def transform_def delete_key_def user_object_def)

lemma toJSON_hides:
  "\<not> exposes ''passwordHash'' (toJSON u)" "\<not> exposes ''__v'' (toJSON u)"
  "\<not> object_has ''passwordHash'' (toJSON u)" "\<not> object_has ''__v'' (toJSON u)"
  by (simp_all add: toJSON_fields)

lemma users_cb_hide:
  "c \<in> set (calls_of (usersIndex_cb r1)) \<union> set (calls_of (usersCreate_cb r2)) \<union>
       set (calls_of (usersShow_cb r3)) \<union> set (calls_of (usersUpdate_cb r4)) \<Longrightarrow>
   c = Json j \<Longrightarrow> \<not> exposes ''passwordHash'' j \<and> \<not> exposes ''__v'' j"
  by (auto simp: usersIndex_cb_def usersCreate_cb_def usersShow_cb_def usersUpdate_cb_def
      toJSON_hides split: sum.splits option.splits)

section \<open>The claims\<close>

text \<open>
  C1. A login for an address that no Identity has, and a login for an address that an
  Identity has with a password that \<open>validatePassword\<close> rejects, get the same
  response: status 401 with the body \<open>{message: "Invalid credentials"}\<close>.
\<close>

theorem login_failures_identical:
  assumes "store_fault e = None"
    and "body_get b ''email'' = Some a"
    and "\<forall>x \<in> set db1. email x \<noteq> a"
    and "\<exists>x \<in> set db2. email x = a"
    and "\<forall>x \<in> set db2. email x = a \<longrightarrow> validatePassword B x (body_get b ''password'') = Inr False"
  shows "login B J secret e db1 b =
           Done [Status 401, Json (JObj [(''message'', JStr ''Invalid credentials'')])] \<and>
         login B J secret e db2 b =
           Done [Status 401, Json (JObj [(''message'', JStr ''Invalid credentials'')])]"
proof -
  have "find (\<lambda>u. Some (email u) = Some a) db1 = None"
    using assms(3) by (rule find_none_email)
  then have one: "login B J secret e db1 b = Done invalid_credentials"
    using assms(1,2)
    by (simp add: login_def login_cb_def login_rest_def res_json_def model_findOne_email_def
        cb_err_def cb_value_def invalid_credentials_def)
  obtain u where u: "find (\<lambda>u. Some (email u) = Some a) db2 = Some u" "u \<in> set db2" "email u = a"
    using find_some_email[OF assms(4)] by blast
  then have "validatePassword B u (body_get b ''password'') = Inr False"
    using assms(5) by blast
  then have two: "login B J secret e db2 b = Done invalid_credentials"
    using assms(1,2) u(1)
    by (simp add: login_def login_cb_def login_rest_def res_json_def model_findOne_email_def
        cb_err_def cb_value_def invalid_credentials_def)
  from one two show ?thesis by (simp add: invalid_credentials_def)
qed

theorem login_failures_identical_witness:
  "login demo_bcrypt demo_jwt ''s'' demo_env []
      [(''email'', ''chanse@chanse.com''), (''password'', ''wrong'')] =
     Done [Status 401, Json (JObj [(''message'', JStr ''Invalid credentials'')])] \<and>
   login demo_bcrypt demo_jwt ''s'' demo_env [demo_user]
      [(''email'', ''chanse@chanse.com''), (''password'', ''wrong'')] =
     Done [Status 401, Json (JObj [(''message'', JStr ''Invalid credentials'')])]"
proof -
  let ?b = "[(''email'', ''chanse@chanse.com''), (''password'', ''wrong'')]"
  have h1: "store_fault demo_env = None" by (simp add: demo_env_def)
  have h2: "body_get ?b ''email'' = Some ''chanse@chanse.com''" by (simp add: body_get_def)
  have h3: "\<forall>x \<in> set ([]::store). email x \<noteq> ''chanse@chanse.com''" by simp
  have h4: "\<exists>x \<in> set [demo_user]. email x = ''chanse@chanse.com''" by (simp add: demo_user_def)
  have h5: "\<forall>x \<in> set [demo_user]. email x = ''chanse@chanse.com'' \<longrightarrow>
              validatePassword demo_bcrypt x (body_get ?b ''password'') = Inr False"
    by (simp add: demo_user_def validatePassword_def demo_bcrypt_def body_get_def suffix_def
        append_eq_Cons_conv Cons_eq_append_conv)
  show ?thesis by (rule login_failures_identical[OF h1 h2 h3 h4 h5])
qed

text \<open>
  C2. On a protected route (\<open>/users\<close>, \<open>/users/:id\<close>, any verb) a request without an
  \<open>Authorization\<close> header is answered 401 \<open>{message: "Unauthorized"}\<close> by the gate, and
  so is one whose token fails verification; in both cases no handler runs and the store
  is untouched. Whenever a handler is invoked, verification succeeded and the handler
  receives the request with the decoded payload as \<open>req.user\<close>.
\<close>

theorem gate_rejects_or_attaches:
  assumes "secured (req_path req)"
  shows "(authorization req = None \<longrightarrow>
            router J secret e req = Respond [Status 401, Json (JObj [(''message'', JStr ''Unauthorized'')])] \<and>
            serve B J secret e db req = (db, Done [Status 401, Json (JObj [(''message'', JStr ''Unauthorized'')])])) \<and>
         (\<forall>h. authorization req = Some h \<and> fst (verify J (bearer_token h) secret (clock e)) \<noteq> None \<longrightarrow>
            router J secret e req = Respond [Status 401, Json (JObj [(''message'', JStr ''Unauthorized'')])] \<and>
            serve B J secret e db req = (db, Done [Status 401, Json (JObj [(''message'', JStr ''Unauthorized'')])])) \<and>
         (\<forall>hd req'. router J secret e req = Invoke hd req' \<longrightarrow>
            (\<exists>h p. authorization req = Some h \<and>
                   verify J (bearer_token h) secret (clock e) = (None, Some p) \<and>
                   req' = req\<lparr>req_user := Some p\<rparr> \<and>
                   route (req_path req) (meth req) = Some hd))"
proof (intro conjI allI impI)
  assume "authorization req = None"
  then show "router J secret e req = Respond [Status 401, Json (JObj [(''message'', JStr ''Unauthorized'')])]"
    using assms by (simp add: router_def secureRoute_def truthy_def unauthorized_def)
  then show "serve B J secret e db req = (db, Done [Status 401, Json (JObj [(''message'', JStr ''Unauthorized'')])])"
    by (simp add: serve_def)
next
  fix h
  assume a: "authorization req = Some h \<and> fst (verify J (bearer_token h) secret (clock e)) \<noteq> None"
  then obtain x p where "verify J (bearer_token h) secret (clock e) = (Some x, p)"
    by (cases "verify J (bearer_token h) secret (clock e)") auto
  with a show r: "router J secret e req = Respond [Status 401, Json (JObj [(''message'', JStr ''Unauthorized'')])]"
    using assms by (simp add: router_def secureRoute_def truthy_def unauthorized_def)
  then show "serve B J secret e db req = (db, Done [Status 401, Json (JObj [(''message'', JStr ''Unauthorized'')])])"
    by (simp add: serve_def)
next
  fix hd req'
  assume inv: "router J secret e req = Invoke hd req'"
  show "\<exists>h p. authorization req = Some h \<and>
                   verify J (bearer_token h) secret (clock e) = (None, Some p) \<and>
                   req' = req\<lparr>req_user := Some p\<rparr> \<and>
                   route (req_path req) (meth req) = Some hd"
    using inv assms
    by (auto simp: router_def secureRoute_def split: if_splits option.splits gate.splits prod.splits)
qed

theorem gate_rejects_or_attaches_witness:
  "router demo_jwt ''s'' short_env (demo_request GET Users None) =
     Respond [Status 401, Json (JObj [(''message'', JStr ''Unauthorized'')])] \<and>
   serve demo_bcrypt demo_jwt ''s'' short_env [demo_user] (demo_request GET Users None) =
     ([demo_user], Done [Status 401, Json (JObj [(''message'', JStr ''Unauthorized'')])]) \<and>
   router demo_jwt ''s'' short_env (demo_request GET Users (Some ''Bearer forged'')) =
     Respond [Status 401, Json (JObj [(''message'', JStr ''Unauthorized'')])] \<and>
   (\<exists>p. verify demo_jwt (bearer_token (''Bearer '' @ short_token)) ''s'' (clock short_env) = (None, Some p) \<and>
        router demo_jwt ''s'' short_env (demo_request GET Users (Some (''Bearer '' @ short_token))) =
          Invoke UsersIndex ((demo_request GET Users (Some (''Bearer '' @ short_token)))\<lparr>req_user := Some p\<rparr>))"
proof -
  have s: "\<And>h. secured (req_path (demo_request GET Users h))" by (simp add: demo_request_def)
  have forged: "fst (verify demo_jwt (bearer_token ''Bearer forged'') ''s'' (clock short_env)) \<noteq> None"
    by (simp add: bearer_token_def demo_jwt_def demo_verify_def dec_str_def dec_nat_def)
  have inv: "router demo_jwt ''s'' short_env (demo_request GET Users (Some (''Bearer '' @ short_token))) =
          Invoke UsersIndex ((demo_request GET Users (Some (''Bearer '' @ short_token)))
            \<lparr>req_user := Some \<lparr>payload_id = ''id1'', payload_username = ''bo'', iat = 1, exp = 4\<rparr>\<rparr>)"
    using short_token_verifies bearer_short_token
    by (simp add: router_def secureRoute_def truthy_def demo_request_def short_env_def)
  note t1 = gate_rejects_or_attaches[OF s[of None], of demo_jwt "''s''" short_env demo_bcrypt "[demo_user]"]
  note t2 = gate_rejects_or_attaches[OF s[of "Some ''Bearer forged''"], of demo_jwt "''s''" short_env demo_bcrypt "[demo_user]"]
  note t3 = gate_rejects_or_attaches[OF s[of "Some (''Bearer '' @ short_token)"], of demo_jwt "''s''" short_env demo_bcrypt "[demo_user]"]
  have a: "authorization (demo_request GET Users None) = None" by (simp add: demo_request_def)
  have b: "authorization (demo_request GET Users (Some ''Bearer forged'')) = Some ''Bearer forged''"
    by (simp add: demo_request_def)
  from t1 a have c1: "router demo_jwt ''s'' short_env (demo_request GET Users None) =
     Respond [Status 401, Json (JObj [(''message'', JStr ''Unauthorized'')])] \<and>
   serve demo_bcrypt demo_jwt ''s'' short_env [demo_user] (demo_request GET Users None) =
     ([demo_user], Done [Status 401, Json (JObj [(''message'', JStr ''Unauthorized'')])])" by blast
  from t2 b forged have c2: "router demo_jwt ''s'' short_env (demo_request GET Users (Some ''Bearer forged'')) =
     Respond [Status 401, Json (JObj [(''message'', JStr ''Unauthorized'')])]" by blast
  from t3 inv have "\<exists>h p. authorization (demo_request GET Users (Some (''Bearer '' @ short_token))) = Some h \<and>
       verify demo_jwt (bearer_token h) ''s'' (clock short_env) = (None, Some p) \<and>
       (demo_request GET Users (Some (''Bearer '' @ short_token)))
            \<lparr>req_user := Some \<lparr>payload_id = ''id1'', payload_username = ''bo'', iat = 1, exp = 4\<rparr>\<rparr>
         = (demo_request GET Users (Some (''Bearer '' @ short_token)))\<lparr>req_user := Some p\<rparr>"
    by blast
  then have c3: "\<exists>p. verify demo_jwt (bearer_token (''Bearer '' @ short_token)) ''s'' (clock short_env) = (None, Some p) \<and>
        router demo_jwt ''s'' short_env (demo_request GET Users (Some (''Bearer '' @ short_token))) =
          Invoke UsersIndex ((demo_request GET Users (Some (''Bearer '' @ short_token)))\<lparr>req_user := Some p\<rparr>)"
    using inv by (auto simp: demo_request_def)
  from c1 c2 c3 show ?thesis by blast
qed

text \<open>
  C3. A valid candidate (handle, address and password present and not empty, the
  confirmation equal to the password, no other schema field) whose handle and address no
  Identity has is registered: the answer is 200 with a token, one Identity is appended to
  the store, and verifying the token with the same secret within its lifetime returns a
  payload with the \<open>_id\<close> and \<open>username\<close> of that Identity. The store is assumed to
  report no error and to be given an unused identifier, bcrypt to return a digest that is
  not empty, and the token library to keep \<open>jwt_contract\<close>.
\<close>

theorem register_token_round_trip:
  assumes "distinct (map fst b)"
    and "body_get b ''username'' = Some n" and "n \<noteq> []"
    and "body_get b ''email'' = Some m" and "m \<noteq> []"
    and "body_get b ''password'' = Some p" and "p \<noteq> []"
    and "body_get b ''passwordConfirmation'' = Some p"
    and "body_get b ''passwordHash'' = None"
    and "hashSync B p (salt e) \<noteq> []"
    and "store_fault e = None"
    and "\<forall>x \<in> set db. uid x \<noteq> new_id e \<and> username x \<noteq> n \<and> email x \<noteq> m"
    and "jwt_contract J"
    and "now < clock e + 60 * 60 * 24"
  shows "\<exists>tok u d.
           register B J secret e db b =
             (db @ [u], Done [Status 200,
                              Json (JObj [(''message'', JStr ''Success''), (''token'', JStr tok)])]) \<and>
           uid u = new_id e \<and> username u = n \<and> email u = m \<and>
           verify J tok secret now = (None, Some d) \<and>
           payload_id d = uid u \<and> payload_username d = username u"
proof -
  let ?u = "\<lparr>uid = new_id e, username = n, email = m,
              passwordHash = hashSync B p (salt e), version = 0\<rparr>"
  let ?tok = "token_for J secret e ?u"
  have r: "register B J secret e db b = (db @ [?u], Done (success ?tok))"
    using create_succeeds[OF assms(1-12)] by (simp add: register_def register_cb_def)
  have "verify J ?tok secret now =
          (None, Some \<lparr>payload_id = new_id e, payload_username = n,
                        iat = clock e, exp = clock e + expiresIn\<rparr>)"
    using assms(13,14) by (simp add: jwt_contract_def token_for_def expiresIn_def)
  with r show ?thesis by (simp add: success_def)
qed

theorem register_token_round_trip_witness:
  "\<exists>tok u d.
     register demo_bcrypt demo_jwt ''s'' demo_env [] demo_body =
       ([] @ [u], Done [Status 200,
                        Json (JObj [(''message'', JStr ''Success''), (''token'', JStr tok)])]) \<and>
     uid u = new_id demo_env \<and> username u = ''chansec'' \<and> email u = ''chanse@chanse.com'' \<and>
     verify demo_jwt tok ''s'' 1001 = (None, Some d) \<and>
     payload_id d = uid u \<and> payload_username d = username u"
proof (rule register_token_round_trip[where p = "''password''"])
  show "distinct (map fst demo_body)" by (simp add: demo_body_def)
  show "body_get demo_body ''username'' = Some ''chansec''" by (simp add: demo_body_def body_get_def)
  show "body_get demo_body ''email'' = Some ''chanse@chanse.com''"
    by (simp add: demo_body_def body_get_def)
  show "body_get demo_body ''password'' = Some ''password''" by (simp add: demo_body_def body_get_def)
  show "body_get demo_body ''passwordConfirmation'' = Some ''password''"
    by (simp add: demo_body_def body_get_def)
  show "body_get demo_body ''passwordHash'' = None" by (simp add: demo_body_def body_get_def)
  show "hashSync demo_bcrypt ''password'' (salt demo_env) \<noteq> []" by (simp add: demo_bcrypt_def)
  show "store_fault demo_env = None" by (simp add: demo_env_def)
  show "\<forall>x \<in> set []. uid x \<noteq> new_id demo_env \<and> username x \<noteq> ''chansec'' \<and>
          email x \<noteq> ''chanse@chanse.com''" by simp
  show "jwt_contract demo_jwt" by (rule demo_jwt_contract)
  show "1001 < clock demo_env + 60 * 60 * 24" by (simp add: demo_env_def)
qed simp_all

text \<open>
  C4. A candidate without a raw password, or whose raw password differs from the
  confirmation, is refused by \<open>register\<close> with status 400 and a validation error, and the
  store is left as it was.
\<close>

theorem register_rejects_bad_password:
  assumes "distinct (map fst b)"
    and "body_get b ''password'' = None \<or>
         body_get b ''password'' \<noteq> body_get b ''passwordConfirmation''"
  shows "\<exists>errs. register B J secret e db b =
                  (db, Done [Status 400, Json (JErr (ValidationError errs))])"
proof -
  have "validate_doc (new_doc B e b) \<noteq> []"
    using validator_rejects[OF assms] by (simp add: validate_doc_def)
  then have "model_create B e db b =
               (db, Inl (ValidationError (validate_doc (new_doc B e b))))"
    by (simp add: model_create_def Let_def)
  then show ?thesis
    by (simp add: register_def register_cb_def)
qed

theorem register_rejects_bad_password_witness:
  "(\<exists>errs. register demo_bcrypt demo_jwt ''s'' demo_env [demo_user]
              [(''username'', ''bo''), (''email'', ''bo@bo.com''), (''passwordConfirmation'', ''pw'')] =
            ([demo_user], Done [Status 400, Json (JErr (ValidationError errs))])) \<and>
   (\<exists>errs. register demo_bcrypt demo_jwt ''s'' demo_env [demo_user]
              [(''username'', ''bo''), (''email'', ''bo@bo.com''), (''password'', ''pw''),
               (''passwordConfirmation'', ''pv'')] =
            ([demo_user], Done [Status 400, Json (JErr (ValidationError errs))]))"
proof -
  let ?b1 = "[(''username'', ''bo''), (''email'', ''bo@bo.com''), (''passwordConfirmation'', ''pw'')]"
  let ?b2 = "[(''username'', ''bo''), (''email'', ''bo@bo.com''), (''password'', ''pw''),
               (''passwordConfirmation'', ''pv'')]"
  have d1: "distinct (map fst ?b1)" and d2: "distinct (map fst ?b2)" by simp_all
  have a1: "body_get ?b1 ''password'' = None \<or>
            body_get ?b1 ''password'' \<noteq> body_get ?b1 ''passwordConfirmation''"
    by (simp add: body_get_def)
  have a2: "body_get ?b2 ''password'' = None \<or>
            body_get ?b2 ''password'' \<noteq> body_get ?b2 ''passwordConfirmation''"
    by (simp add: body_get_def)
  show ?thesis
    using register_rejects_bad_password[OF d1 a1, of demo_bcrypt demo_jwt "''s''" demo_env "[demo_user]"]
      register_rejects_bad_password[OF d2 a2, of demo_bcrypt demo_jwt "''s''" demo_env "[demo_user]"]
    by blast
qed

text \<open>
  C5. A token that \<open>register\<close> or \<open>login\<close> returns at clock \<open>T\<close> expires at
  \<open>T + 86400\<close>: it verifies at \<open>T + 1\<close> and is refused as expired at \<open>T + 86401\<close>, for
  every token library that keeps \<open>jwt_contract\<close>.
\<close>

theorem issued_token_lives_one_day:
  assumes "jwt_contract J"
    and "register B J secret e db b =
           (db', Done [Status 200, Json (JObj [(''message'', JStr ''Success''), (''token'', JStr tok)])]) \<or>
         login B J secret e db b =
           Done [Status 200, Json (JObj [(''message'', JStr ''Success''), (''token'', JStr tok)])]"
  shows "(\<exists>d. verify J tok secret (clock e + 1) = (None, Some d) \<and>
              iat d = clock e \<and> exp d = clock e + 86400) \<and>
         verify J tok secret (clock e + 86401) = (Some TokenExpiredError, None)"
proof -
  from assms(2) have "\<exists>u. tok = token_for J secret e u"
    using register_success_token[of B J secret e db b db' tok]
      login_success_token[of B J secret e db b tok]
    by (auto simp: success_def)
  then obtain u where "tok = token_for J secret e u" ..
  with token_for_lifetime[OF assms(1)] show ?thesis by simp
qed

theorem issued_token_lives_one_day_witness:
  "(\<exists>d. verify demo_jwt (token_for demo_jwt ''s'' demo_env demo_user) ''s'' (clock demo_env + 1) =
          (None, Some d) \<and> iat d = clock demo_env \<and> exp d = clock demo_env + 86400) \<and>
   verify demo_jwt (token_for demo_jwt ''s'' demo_env demo_user) ''s'' (clock demo_env + 86401) =
     (Some TokenExpiredError, None)"
  using issued_token_lives_one_day[OF demo_jwt_contract disjI1[OF demo_register]]
    issued_token_lives_one_day[of demo_jwt demo_bcrypt "''s''" demo_env "[demo_user]"
      "[(''email'', ''chanse@chanse.com''), (''password'', ''password'')]" "[]"
      "token_for demo_jwt ''s'' demo_env demo_user"]
    demo_jwt_contract demo_login
  by blast

text \<open>
  C6. When the lookup of \<open>login\<close> reports an error, exactly one response is sent, and it
  is the 500 of \<open>res.send(500)\<close>: the call \<open>.json(err)\<close> that follows finds the response
  sent and raises, which ends the callback, so the branch for an unknown user or a wrong
  password is not entered and no 401 is issued. The handler ends by that exception, not
  by returning.
\<close>

theorem login_store_error_answers_once:
  assumes "store_fault e = Some x"
  shows "login B J secret e db b = Threw [Send_status 500] headers_sent \<and>
         filter is_send (calls_of (login B J secret e db b)) = [Send_status 500] \<and>
         Status 401 \<notin> set (calls_of (login B J secret e db b))"
  using assms
  by (simp add: login_def login_cb_def res_json_def model_findOne_email_def cb_err_def)

theorem login_store_error_answers_once_witness:
  "login demo_bcrypt demo_jwt ''s'' (demo_env\<lparr>store_fault := Some (StoreError ''down'')\<rparr>)
      [demo_user] [(''email'', ''chanse@chanse.com''), (''password'', ''password'')] =
     Threw [Send_status 500] headers_sent \<and>
   filter is_send
     (calls_of (login demo_bcrypt demo_jwt ''s'' (demo_env\<lparr>store_fault := Some (StoreError ''down'')\<rparr>)
        [demo_user] [(''email'', ''chanse@chanse.com''), (''password'', ''password'')])) =
     [Send_status 500]"
proof -
  have f: "store_fault (demo_env\<lparr>store_fault := Some (StoreError ''down'')\<rparr>) =
             Some (StoreError ''down'')"
    by simp
  from login_store_error_answers_once[OF f, of demo_bcrypt demo_jwt "''s''" "[demo_user]"
      "[(''email'', ''chanse@chanse.com''), (''password'', ''password'')]"]
  show ?thesis by blast
qed

text \<open>
  C7. What the list, create, show and update handlers put into a response for an
  Identity is the document after the \<open>toJSON\<close> transform: \<open>_id\<close>, \<open>username\<close> and
  \<open>email\<close>, never \<open>passwordHash\<close> or \<open>__v\<close>. Error objects of the libraries are not
  serialised Identities and are not looked into.
\<close>

theorem serialised_identity_hides_digest:
  "toJSON u = JObj [(''_id'', JStr (uid u)), (''username'', JStr (username u)),
                    (''email'', JStr (email u))] \<and>
   (\<forall>c \<in> set (calls_of (snd (usersIndex e db))) \<union>
           set (calls_of (snd (usersCreate B e db b))) \<union>
           set (calls_of (snd (usersShow e db i))) \<union>
           set (calls_of (snd (usersUpdate e db i b))).
      \<forall>j. c = Json j \<longrightarrow> \<not> exposes ''passwordHash'' j \<and> \<not> exposes ''__v'' j)"
proof -
  have 1: "snd (usersIndex e db) = usersIndex_cb (model_find e db)"
    by (simp add: usersIndex_def)
  have 2: "snd (usersCreate B e db b) = usersCreate_cb (snd (model_create B e db b))"
    by (simp add: usersCreate_def split: prod.splits)
  have 3: "snd (usersShow e db i) = usersShow_cb (model_findById e db i)"
    by (simp add: usersShow_def)
  have 4: "snd (usersUpdate e db i b) = usersUpdate_cb (snd (model_findByIdAndUpdate e db i b))"
    by (simp add: usersUpdate_def split: prod.splits)
  show ?thesis
    unfolding 1 2 3 4 using users_cb_hide by (intro conjI ballI allI impI toJSON_fields) blast+
qed

theorem serialised_identity_hides_digest_witness:
  "snd (usersIndex demo_env [demo_user]) =
     Done [Status 200, Json (JArr [JObj [(''_id'', JStr ''id1''), (''username'', JStr ''chansec''),
                                         (''email'', JStr ''chanse@chanse.com'')]])] \<and>
   \<not> exposes ''passwordHash''
       (JArr [JObj [(''_id'', JStr ''id1''), (''username'', JStr ''chansec''),
                    (''email'', JStr ''chanse@chanse.com'')]]) \<and>
   \<not> exposes ''__v''
       (JArr [JObj [(''_id'', JStr ''id1''), (''username'', JStr ''chansec''),
                    (''email'', JStr ''chanse@chanse.com'')]])"
proof -
  let ?j = "JArr [JObj [(''_id'', JStr ''id1''), (''username'', JStr ''chansec''),
                        (''email'', JStr ''chanse@chanse.com'')]]"
  have r: "snd (usersIndex demo_env [demo_user]) = Done [Status 200, Json ?j]"
    by (simp add: usersIndex_def usersIndex_cb_def model_find_def demo_env_def toJSON_fields
        demo_user_def)
  then have "Json ?j \<in> set (calls_of (snd (usersIndex demo_env [demo_user])))" by simp
  with serialised_identity_hides_digest[of demo_user demo_env "[demo_user]" demo_bcrypt "[]" "[]" ]
  have "\<not> exposes ''passwordHash'' ?j \<and> \<not> exposes ''__v'' ?j" by blast
  with r show ?thesis by blast
qed

text \<open>
  C8, as the code has it. The digest is not protected from the input: \<open>passwordHash\<close>
  is a schema path, and the body is assigned to the document as it comes. For
  \<open>register\<close> and the create handler, the digest of the new Identity is the bcrypt hash
  of the raw password that came with an equal confirmation, or else the
  \<open>passwordHash\<close> field of the input itself; with no such field in the input it is
  always the hash. The update handler never hashes: every digest in the store after it
  was there before or is the \<open>passwordHash\<close> field of the input, as supplied.
\<close>

theorem digest_origin:
  assumes "distinct (map fst b)"
  shows "(\<forall>u. fst (register B J secret e db b) = db @ [u] \<longrightarrow>
            (\<exists>p. body_get b ''password'' = Some p \<and> body_get b ''passwordConfirmation'' = Some p \<and>
                 (passwordHash u = hashSync B p (salt e) \<or>
                  body_get b ''passwordHash'' = Some (passwordHash u)))) \<and>
         (\<forall>u. fst (usersCreate B e db b) = db @ [u] \<longrightarrow>
            (\<exists>p. body_get b ''password'' = Some p \<and> body_get b ''passwordConfirmation'' = Some p \<and>
                 (passwordHash u = hashSync B p (salt e) \<or>
                  body_get b ''passwordHash'' = Some (passwordHash u)))) \<and>
         (\<forall>u' \<in> set (fst (usersUpdate e db i b)).
            \<exists>u \<in> set db. passwordHash u' = passwordHash u \<or>
                          body_get b ''passwordHash'' = Some (passwordHash u'))"
proof -
  have created: "\<exists>p. body_get b ''password'' = Some p \<and> body_get b ''passwordConfirmation'' = Some p \<and>
                 (passwordHash u = hashSync B p (salt e) \<or>
                  body_get b ''passwordHash'' = Some (passwordHash u))"
    if "fst (model_create B e db b) = db @ [u]" for u
  proof -
    obtain db' r where r: "model_create B e db b = (db', r)" by (cases "model_create B e db b")
    with that have db': "db' = db @ [u]" by simp
    then have "db' \<noteq> db" by simp
    with r obtain w where "r = Inr w"
      by (auto simp: model_create_def Let_def split: if_splits option.splits)
    with r create_digest_origin[OF assms, of B e db db' w] db' show ?thesis by auto
  qed
  have 1: "fst (register B J secret e db b) = fst (model_create B e db b)"
    by (simp add: register_def split: prod.splits)
  have 2: "fst (usersCreate B e db b) = fst (model_create B e db b)"
    by (simp add: usersCreate_def split: prod.splits)
  have 3: "fst (usersUpdate e db i b) = fst (model_findByIdAndUpdate e db i b)"
    by (simp add: usersUpdate_def split: prod.splits)
  show ?thesis
    using created update_digest_origin[OF assms, of _ e db i] by (simp add: 1 2 3)
qed

theorem digest_origin_witness:
  "(\<exists>p. body_get demo_body ''password'' = Some p \<and>
        body_get demo_body ''passwordConfirmation'' = Some p \<and>
        (passwordHash demo_user = hashSync demo_bcrypt p (salt demo_env) \<or>
         body_get demo_body ''passwordHash'' = Some (passwordHash demo_user))) \<and>
   (\<exists>u \<in> set [demo_user].
        passwordHash (demo_user\<lparr>username := ''bo''\<rparr>) = passwordHash u \<or>
        body_get [(''username'', ''bo''), (''password'', ''fresh'')] ''passwordHash'' =
          Some (passwordHash (demo_user\<lparr>username := ''bo''\<rparr>)))"
proof -
  have d: "distinct (map fst demo_body)" by (simp add: demo_body_def)
  have r: "fst (register demo_bcrypt demo_jwt ''s'' demo_env [] demo_body) = [] @ [demo_user]"
    by (simp add: demo_register)
  have d2: "distinct (map fst [(''username'', ''bo''), (''password'', ''fresh'')])" by simp
  have u: "demo_user\<lparr>username := ''bo''\<rparr> \<in>
             set (fst (usersUpdate demo_env [demo_user] ''id1''
                         [(''username'', ''bo''), (''password'', ''fresh'')]))"
    by (simp add: usersUpdate_def model_findByIdAndUpdate_def Let_def update_errors_def
        required_errors_def truthy_def update_path_def update_clashes_def demo_env_def
        demo_user_def)
  from digest_origin[OF d, of demo_bcrypt demo_jwt "''s''" demo_env "[]"] r
  have one: "\<exists>p. body_get demo_body ''password'' = Some p \<and>
        body_get demo_body ''passwordConfirmation'' = Some p \<and>
        (passwordHash demo_user = hashSync demo_bcrypt p (salt demo_env) \<or>
         body_get demo_body ''passwordHash'' = Some (passwordHash demo_user))"
    by blast
  from digest_origin[OF d2, of demo_bcrypt demo_jwt "''s''" demo_env "[demo_user]" "''id1''"] u
  have two: "\<exists>u \<in> set [demo_user].
        passwordHash (demo_user\<lparr>username := ''bo''\<rparr>) = passwordHash u \<or>
        body_get [(''username'', ''bo''), (''password'', ''fresh'')] ''passwordHash'' =
          Some (passwordHash (demo_user\<lparr>username := ''bo''\<rparr>))"
    by blast
  from one two show ?thesis ..
qed

text \<open>
  C8, as stated, fails: an input that carries \<open>passwordHash\<close> before \<open>password\<close> has
  that value saved as the digest by \<open>register\<close> and by the create handler (the keys are
  assigned from the last to the first, so the field is written after the setter of
  \<open>password\<close> has run), and the update handler saves it whatever else the input holds;
  in no case is it the hash of the raw password.
\<close>

theorem digest_set_from_input:
  "fst (register demo_bcrypt demo_jwt ''s'' demo_env []
          ((''passwordHash'', ''injected'') # demo_body)) =
     [demo_user\<lparr>passwordHash := ''injected''\<rparr>] \<and>
   fst (usersCreate demo_bcrypt demo_env []
          ((''passwordHash'', ''injected'') # demo_body)) =
     [demo_user\<lparr>passwordHash := ''injected''\<rparr>] \<and>
   fst (usersUpdate demo_env [demo_user] ''id1''
          [(''password'', ''fresh''), (''passwordConfirmation'', ''fresh''),
           (''passwordHash'', ''injected'')]) =
     [demo_user\<lparr>passwordHash := ''injected''\<rparr>] \<and>
   hashSync demo_bcrypt ''password'' (salt demo_env) \<noteq> ''injected'' \<and>
   hashSync demo_bcrypt ''fresh'' (salt demo_env) \<noteq> ''injected''"
  by (simp add: register_def usersCreate_def usersUpdate_def model_create_def
      model_findByIdAndUpdate_def Let_def new_doc_def blank_doc_def set_path_def set_password_def
      set_passwordConfirmation_def validate_doc_def required_errors_def truthy_def
      passwordHash_validator_def to_user_def clashes_def update_clashes_def update_errors_def
      update_path_def demo_body_def demo_env_def demo_user_def demo_bcrypt_def
      register_cb_def usersCreate_cb_def usersUpdate_cb_def)

text \<open>
  C9. The gate takes the token from the header by removing the leftmost occurrence of
  \<open>Bearer \<close> and nothing else: a header without that substring is verified as it is
  (so a bare valid token is accepted), and when the substring starts later in the value,
  that occurrence is the one removed.
\<close>

theorem bearer_token_first_occurrence:
  "(\<not> sublist ''Bearer '' h \<longrightarrow> bearer_token h = h) \<and>
   (h = a @ ''Bearer '' @ b \<and> (\<forall>a' b'. h = a' @ ''Bearer '' @ b' \<longrightarrow> length a \<le> length a') \<longrightarrow>
      bearer_token h = a @ b) \<and>
   (authorization req = Some h \<and> h \<noteq> [] \<and> verify J (bearer_token h) secret (clock e) = (None, Some p) \<longrightarrow>
      secureRoute J secret e req = Next (req\<lparr>req_user := Some p\<rparr>))"
proof (intro conjI impI)
  assume "\<not> sublist ''Bearer '' h"
  then show "bearer_token h = h" unfolding bearer_token_def by (rule replace_first_absent)
next
  assume "h = a @ ''Bearer '' @ b \<and> (\<forall>a' b'. h = a' @ ''Bearer '' @ b' \<longrightarrow> length a \<le> length a')"
  then have "replace_first ''Bearer '' [] h = a @ [] @ b"
    by (intro replace_first_leftmost) blast+
  then show "bearer_token h = a @ b" by (simp add: bearer_token_def)
next
  assume "authorization req = Some h \<and> h \<noteq> [] \<and> verify J (bearer_token h) secret (clock e) = (None, Some p)"
  then show "secureRoute J secret e req = Next (req\<lparr>req_user := Some p\<rparr>)"
    by (simp add: secureRoute_def truthy_def)
qed

theorem bearer_token_first_occurrence_witness:
  "bearer_token short_token = short_token \<and>
   bearer_token (''x'' @ ''Bearer '' @ ''tBearer u'') = ''x'' @ ''tBearer u'' \<and>
   secureRoute demo_jwt ''s'' short_env (demo_request GET Users (Some short_token)) =
     Next ((demo_request GET Users (Some short_token))
             \<lparr>req_user := Some \<lparr>payload_id = ''id1'', payload_username = ''bo'', iat = 1, exp = 4\<rparr>\<rparr>)"
proof -
  have least: "\<forall>a' b'. ''x'' @ ''Bearer '' @ ''tBearer u'' = a' @ ''Bearer '' @ b' \<longrightarrow> length ''x'' \<le> length a'"
    by (auto simp: Cons_eq_append_conv)
  have c1: "bearer_token short_token = short_token"
    using bearer_token_first_occurrence[of short_token] short_token_plain by blast
  have c2: "bearer_token (''x'' @ ''Bearer '' @ ''tBearer u'') = ''x'' @ ''tBearer u''"
    using bearer_token_first_occurrence[of "''x'' @ ''Bearer '' @ ''tBearer u''" "''x''" "''tBearer u''"] least
    by blast
  have "authorization (demo_request GET Users (Some short_token)) = Some short_token"
    and "short_token \<noteq> []"
    and "verify demo_jwt (bearer_token short_token) ''s'' (clock short_env) =
           (None, Some \<lparr>payload_id = ''id1'', payload_username = ''bo'', iat = 1, exp = 4\<rparr>)"
    using short_token_verifies c1 by (simp_all add: demo_request_def short_env_def short_token_def)
  then have c3: "secureRoute demo_jwt ''s'' short_env (demo_request GET Users (Some short_token)) =
     Next ((demo_request GET Users (Some short_token))
             \<lparr>req_user := Some \<lparr>payload_id = ''id1'', payload_username = ''bo'', iat = 1, exp = 4\<rparr>\<rparr>)"
    using bearer_token_first_occurrence[of short_token _ _ "demo_request GET Users (Some short_token)"
        demo_jwt "''s''" short_env]
    by blast
  from c1 c2 c3 show ?thesis by blast
qed

text \<open>
  C10. Whenever the store reports no error, the delete handler answers 204 with an
  empty body, whether or not an Identity has the identifier; when none has, the store is
  unchanged. No outcome of the handler carries a 404.
\<close>

theorem delete_never_reports_not_found:
  assumes "store_fault e = None"
  shows "usersDelete e db i = (filter (\<lambda>u. uid u \<noteq> i) db, Done [Status 204, Send_empty]) \<and>
         ((\<forall>u \<in> set db. uid u \<noteq> i) \<longrightarrow> usersDelete e db i = (db, Done [Status 204, Send_empty])) \<and>
         (\<forall>e'. Status 404 \<notin> set (calls_of (snd (usersDelete e' db i))))"
proof (intro conjI impI allI)
  show r: "usersDelete e db i = (filter (\<lambda>u. uid u \<noteq> i) db, Done [Status 204, Send_empty])"
    using assms by (simp add: usersDelete_def model_findByIdAndRemove_def usersDelete_cb_def)
  show "usersDelete e db i = (db, Done [Status 204, Send_empty])" if "\<forall>u \<in> set db. uid u \<noteq> i"
  proof -
    from that have "filter (\<lambda>u. uid u \<noteq> i) db = db" by (simp add: filter_id_conv)
    with r show ?thesis by simp
  qed
  show "Status 404 \<notin> set (calls_of (snd (usersDelete e' db i)))" for e'
    by (simp add: usersDelete_def model_findByIdAndRemove_def usersDelete_cb_def
        split: option.splits)
qed

theorem delete_never_reports_not_found_witness:
  "usersDelete demo_env [demo_user] ''nobody'' = ([demo_user], Done [Status 204, Send_empty]) \<and>
   usersDelete demo_env [demo_user] ''id1'' = ([], Done [Status 204, Send_empty])"
proof -
  have f: "store_fault demo_env = None" by (simp add: demo_env_def)
  have a: "\<forall>u \<in> set [demo_user]. uid u \<noteq> ''nobody''" by (simp add: demo_user_def)
  have "filter (\<lambda>u. uid u \<noteq> ''id1'') [demo_user] = []" by (simp add: demo_user_def)
  with delete_never_reports_not_found[OF f, of "[demo_user]" "''id1''"]
    delete_never_reports_not_found[OF f, of "[demo_user]" "''nobody''"] a
  show ?thesis by simp
qed

end
